theory Spec2Isabelle
  imports Complex_Main
begin

section \<open>Python values\<close>

text \<open>
  The pipeline works on decoded JSON (\<^verbatim>\<open>dict[str, Any]\<close>). A \<open>string\<close> stands for a
  Python \<^verbatim>\<open>str\<close> whose code points are below 256, one \<open>char\<close> per code point.
  Python's \<^verbatim>\<open>None\<close> is \<open>JNull\<close>.
\<close>

datatype json =
    JNull
  | JBool bool
  | JInt int
  | JFloat real
  | JStr string
  | JList "json list"
  | JObj "(string \<times> json) list"

datatype error =
    ValueError
  | TypeError
  | AttributeError
  | ZeroDivisionError
  | JSONDecodeError
  | RequestError
  | HTTPStatusError
  | RuntimeError
  | InvalidOperation
  | DivisionByZero
  | Overflow
  | OtherError string

text \<open>Truth value of a decoded JSON value (\<^verbatim>\<open>if x:\<close>, \<^verbatim>\<open>not x\<close>).\<close>

fun truthy :: "json \<Rightarrow> bool" where
  "truthy JNull = False"
| "truthy (JBool b) = b"
| "truthy (JInt i) = (i \<noteq> 0)"
| "truthy (JFloat r) = (r \<noteq> 0)"
| "truthy (JStr s) = (s \<noteq> [])"
| "truthy (JList xs) = (xs \<noteq> [])"
| "truthy (JObj kvs) = (kvs \<noteq> [])"

text \<open>
  Library functions that are applied to arbitrary JSON values are parameters of the
  model: \<^verbatim>\<open>str()\<close> on a value that is not already a \<^verbatim>\<open>str\<close>, \<^verbatim>\<open>json.dumps\<close> and
  \<^verbatim>\<open>json.loads\<close> (\<open>None\<close> when it raises \<^verbatim>\<open>JSONDecodeError\<close>).
\<close>

record pylib =
  str_of :: "json \<Rightarrow> string"
  json_dumps :: "json \<Rightarrow> string"
  json_loads :: "string \<Rightarrow> json option"

definition py_str :: "pylib \<Rightarrow> json \<Rightarrow> string" where
  "py_str L v = (case v of JStr s \<Rightarrow> s | _ \<Rightarrow> str_of L v)"

text \<open>\<^verbatim>\<open>d.get(key, default)\<close> on a dict kept as an association list.\<close>

definition dict_get :: "(string \<times> json) list \<Rightarrow> string \<Rightarrow> json \<Rightarrow> json" where
  "dict_get d k dflt = (case map_of d k of None \<Rightarrow> dflt | Some v \<Rightarrow> v)"

text \<open>\<^verbatim>\<open>d[key] = v\<close>: an existing key keeps its place, a new key goes last.\<close>

fun dict_set :: "(string \<times> json) list \<Rightarrow> string \<Rightarrow> json \<Rightarrow> (string \<times> json) list" where
  "dict_set [] k v = [(k, v)]"
| "dict_set ((k', v') # d) k v = (if k' = k then (k, v) # d else (k', v') # dict_set d k v)"

section \<open>Decimal arithmetic of the standard library\<close>

text \<open>
  \<^verbatim>\<open>decimal.Decimal\<close> as CPython provides it on a 64-bit platform, under the default
  context the code never changes: precision 28, \<^verbatim>\<open>ROUND_HALF_EVEN\<close>, \<^verbatim>\<open>Emin = -999999\<close>,
  \<^verbatim>\<open>Emax = 999999\<close>, no clamping, traps on \<^verbatim>\<open>InvalidOperation\<close>, \<^verbatim>\<open>DivisionByZero\<close> and
  \<^verbatim>\<open>Overflow\<close>. A finite number is sign, coefficient and exponent; a NaN carries its
  payload (0 for none).
\<close>

datatype dec =
    DFinite bool nat int
  | DInfinity bool
  | DNaN bool nat
  | DsNaN bool nat

definition prec :: nat where "prec = 28"
definition Emax :: int where "Emax = 999999"
definition Emin :: int where "Emin = - 999999"
definition Etiny :: int where "Etiny = Emin - int prec + 1"
definition Etop :: int where "Etop = Emax - int prec + 1"

fun ndigits :: "nat \<Rightarrow> nat" where
  "ndigits n = (if n < 10 then 1 else Suc (ndigits (n div 10)))"

declare ndigits.simps [simp del]

definition digit_char :: "nat \<Rightarrow> char" where
  "digit_char d = ''0123456789'' ! d"

fun show_nat :: "nat \<Rightarrow> string" where
  "show_nat n = (if n < 10 then [digit_char n] else show_nat (n div 10) @ [digit_char (n mod 10)])"

declare show_nat.simps [simp del]

definition is_digit :: "char \<Rightarrow> bool" where
  "is_digit c = (c \<in> set ''0123456789'')"

definition digit_val :: "char \<Rightarrow> nat" where
  "digit_val c = (of_char c :: nat) - 48"

definition digits_val :: "string \<Rightarrow> nat" where
  "digits_val ds = foldl (\<lambda>n c. 10 * n + digit_val c) 0 ds"

text \<open>The code points below 256 that \<^verbatim>\<open>str.strip()\<close> removes.\<close>

definition is_space :: "char \<Rightarrow> bool" where
  "is_space c = ((of_char c :: nat) \<in> {9, 10, 11, 12, 13, 28, 29, 30, 31, 32, 133, 160})"

definition strip :: "string \<Rightarrow> string" where
  "strip s = rev (dropWhile is_space (rev (dropWhile is_space s)))"

definition lower_ascii :: "char \<Rightarrow> char" where
  "lower_ascii c =
     (if 65 \<le> (of_char c :: nat) \<and> (of_char c :: nat) \<le> 90 then char_of ((of_char c :: nat) + 32) else c)"

definition parse_exponent :: "string \<Rightarrow> int option" where
  "parse_exponent r =
     (case r of
        [] \<Rightarrow> Some 0
      | c # t \<Rightarrow>
          if lower_ascii c = CHR ''e'' then
            (let (neg, ds) =
                   (case t of
                      [] \<Rightarrow> (False, t)
                    | x # u \<Rightarrow>
                        if x = CHR ''-'' then (True, u)
                        else if x = CHR ''+'' then (False, u)
                        else (False, t))
             in if ds \<noteq> [] \<and> list_all is_digit ds
                then Some (if neg then - int (digits_val ds) else int (digits_val ds))
                else None)
          else None)"

text \<open>
  The numeric alternative of the grammar: digits with an optional fraction and an
  optional exponent, at least one digit before the exponent. The value is kept exactly;
  the constructor refuses a number that the widest context cannot hold exactly.
\<close>

definition parse_number :: "bool \<Rightarrow> string \<Rightarrow> dec option" where
  "parse_number neg r =
     (let ip = takeWhile is_digit r;
          r1 = dropWhile is_digit r;
          (fp, r2) =
            (case r1 of
               [] \<Rightarrow> ([], r1)
             | c # t \<Rightarrow>
                 if c = CHR ''.'' then (takeWhile is_digit t, dropWhile is_digit t)
                 else ([], r1))
      in if ip = [] \<and> fp = [] then None
         else
           (case parse_exponent r2 of
              None \<Rightarrow> None
            | Some ex \<Rightarrow>
                (let c = digits_val (ip @ fp);
                     e = ex - int (length fp)
                 in if e < - 1999999999999999997
                       \<or> 999999999999999999 < e + int (ndigits c) - 1
                    then None
                    else Some (DFinite neg c e))))"

definition parse_special :: "bool \<Rightarrow> string \<Rightarrow> dec option" where
  "parse_special neg r =
     (let l = map lower_ascii r
      in if l = ''inf'' \<or> l = ''infinity'' then Some (DInfinity neg)
         else if take 3 l = ''nan'' \<and> list_all is_digit (drop 3 l)
           then Some (DNaN neg (digits_val (drop 3 l)))
         else if take 4 l = ''snan'' \<and> list_all is_digit (drop 4 l)
           then Some (DsNaN neg (digits_val (drop 4 l)))
         else None)"

text \<open>\<^verbatim>\<open>Decimal(s)\<close> for a string; \<open>None\<close> when it raises \<^verbatim>\<open>InvalidOperation\<close>.\<close>

definition Decimal :: "string \<Rightarrow> dec option" where
  "Decimal s =
     (let t = filter (\<lambda>c. c \<noteq> CHR ''_'') (strip s);
          (neg, r) =
            (case t of
               [] \<Rightarrow> (False, t)
             | c # u \<Rightarrow>
                 if c = CHR ''-'' then (True, u)
                 else if c = CHR ''+'' then (False, u)
                 else (False, t))
      in case r of
           [] \<Rightarrow> None
         | c # u \<Rightarrow>
             if is_digit c \<or> c = CHR ''.'' then parse_number neg r
             else parse_special neg r)"

definition round_half_even :: "nat \<Rightarrow> nat \<Rightarrow> nat" where
  "round_half_even c k =
     (let q = c div 10 ^ k; r = c mod 10 ^ k
      in if 10 ^ k < 2 * r \<or> (2 * r = 10 ^ k \<and> odd q) then q + 1 else q)"

text \<open>Rounding of a result to the context (\<^verbatim>\<open>_fix\<close>); overflow is trapped.\<close>

fun dec_fix :: "dec \<Rightarrow> error + dec" where
  "dec_fix (DFinite s c e) =
     (if c = 0 then Inr (DFinite s 0 (min (max e Etiny) Emax))
      else
        (let exp_min0 = int (ndigits c) + e - int prec
         in if Etop < exp_min0 then Inl Overflow
            else
              (let exp_min = max exp_min0 Etiny
               in if e < exp_min then
                    (let coeff = round_half_even c (nat (exp_min - e));
                         (coeff', exp_min') =
                           (if prec < ndigits coeff then (coeff div 10, exp_min + 1)
                            else (coeff, exp_min))
                     in if Etop < exp_min' then Inl Overflow
                        else Inr (DFinite s coeff' exp_min'))
                  else Inr (DFinite s c e))))"
| "dec_fix (DInfinity s) = Inr (DInfinity s)"
| "dec_fix (DNaN s p) = Inr (DNaN s (p mod 10 ^ prec))"
| "dec_fix (DsNaN s p) = Inr (DsNaN s (p mod 10 ^ prec))"

definition signed :: "bool \<Rightarrow> nat \<Rightarrow> int" where
  "signed s c = (if s then - int c else int c)"

text \<open>\<^verbatim>\<open>x + y\<close>: a signalling NaN or opposite infinities raise \<^verbatim>\<open>InvalidOperation\<close>.\<close>

fun dec_add :: "dec \<Rightarrow> dec \<Rightarrow> error + dec" where
  "dec_add (DsNaN s p) y = Inl InvalidOperation"
| "dec_add x (DsNaN t q) = Inl InvalidOperation"
| "dec_add (DNaN s p) y = dec_fix (DNaN s p)"
| "dec_add x (DNaN t q) = dec_fix (DNaN t q)"
| "dec_add (DInfinity s) (DInfinity t) =
     (if s \<noteq> t then Inl InvalidOperation else Inr (DInfinity s))"
| "dec_add (DInfinity s) (DFinite t d f) = Inr (DInfinity s)"
| "dec_add (DFinite s c e) (DInfinity t) = Inr (DInfinity t)"
| "dec_add (DFinite s c e) (DFinite t d f) =
     (let ex = min e f;
          v = signed s (c * 10 ^ nat (e - ex)) + signed t (d * 10 ^ nat (f - ex))
      in dec_fix (DFinite (if v = 0 then s \<and> t else v < 0) (nat \<bar>v\<bar>) ex))"

text \<open>An exact quotient is brought as close to the ideal exponent as its zeros allow.\<close>

function strip_zeros :: "nat \<Rightarrow> int \<Rightarrow> int \<Rightarrow> nat \<times> int" where
  "strip_zeros coeff ex ideal =
     (if ex < ideal \<and> coeff mod 10 = 0 then strip_zeros (coeff div 10) (ex + 1) ideal
      else (coeff, ex))"
  by pat_completeness auto
termination
  by (relation "measure (\<lambda>(coeff, ex, ideal). nat (ideal - ex))") auto

declare strip_zeros.simps [simp del]

text \<open>\<^verbatim>\<open>x / y\<close>.\<close>

fun dec_truediv :: "dec \<Rightarrow> dec \<Rightarrow> error + dec" where
  "dec_truediv (DsNaN s p) y = Inl InvalidOperation"
| "dec_truediv x (DsNaN t q) = Inl InvalidOperation"
| "dec_truediv (DNaN s p) y = dec_fix (DNaN s p)"
| "dec_truediv x (DNaN t q) = dec_fix (DNaN t q)"
| "dec_truediv (DInfinity s) (DInfinity t) = Inl InvalidOperation"
| "dec_truediv (DInfinity s) (DFinite t d f) = Inr (DInfinity (s \<noteq> t))"
| "dec_truediv (DFinite s c e) (DInfinity t) = Inr (DFinite (s \<noteq> t) 0 Etiny)"
| "dec_truediv (DFinite s c e) (DFinite t d f) =
     (if d = 0 then (if c = 0 then Inl InvalidOperation else Inl DivisionByZero)
      else if c = 0 then dec_fix (DFinite (s \<noteq> t) 0 (e - f))
      else
        (let shift = int (ndigits d) - int (ndigits c) + int prec + 1;
             ex = e - f - shift;
             num = (if 0 \<le> shift then c * 10 ^ nat shift else c);
             den = (if 0 \<le> shift then d else d * 10 ^ nat (- shift));
             coeff = num div den;
             remainder = num mod den;
             (coeff', ex') =
               (if remainder \<noteq> 0 then (if coeff mod 5 = 0 then coeff + 1 else coeff, ex)
                else strip_zeros coeff ex (e - f))
         in dec_fix (DFinite (s \<noteq> t) coeff' ex')))"

text \<open>\<^verbatim>\<open>str(x)\<close>: scientific notation once the exponent is positive or the number small.\<close>

definition sign_str :: "bool \<Rightarrow> string" where
  "sign_str s = (if s then ''-'' else '''')"

definition payload_str :: "nat \<Rightarrow> string" where
  "payload_str p = (if p = 0 then '''' else show_nat p)"

fun dec_str :: "dec \<Rightarrow> string" where
  "dec_str (DInfinity s) = sign_str s @ ''Infinity''"
| "dec_str (DNaN s p) = sign_str s @ ''NaN'' @ payload_str p"
| "dec_str (DsNaN s p) = sign_str s @ ''sNaN'' @ payload_str p"
| "dec_str (DFinite s c e) =
     (let ds = show_nat c;
          leftdigits = e + int (length ds);
          dotplace = (if e \<le> 0 \<and> - 6 < leftdigits then leftdigits else 1);
          (intpart, fracpart) =
            (if dotplace \<le> 0 then (''0'', ''.'' @ replicate (nat (- dotplace)) CHR ''0'' @ ds)
             else if int (length ds) \<le> dotplace
               then (ds @ replicate (nat (dotplace - int (length ds))) CHR ''0'', '''')
             else (take (nat dotplace) ds, ''.'' @ drop (nat dotplace) ds));
          ex = (if leftdigits = dotplace then ''''
                else ''E'' @ (if 0 \<le> leftdigits - dotplace then ''+'' else ''-'')
                     @ show_nat (nat \<bar>leftdigits - dotplace\<bar>))
      in sign_str s @ intpart @ fracpart @ ex)"

text \<open>\<^verbatim>\<open>parse_decimal\<close> of \<^verbatim>\<open>utils.py\<close>, on a string: every failure becomes \<open>None\<close>.\<close>

definition parse_decimal :: "string \<Rightarrow> dec option" where
  "parse_decimal v = Decimal v"

section \<open>Data models (\<^verbatim>\<open>models.py\<close>)\<close>

record TokenOutcome =
  token_id :: string
  outcome :: string
  market_id :: string
  slug :: string
  question :: string
  active :: json
  volume_num :: json
  liquidity_num :: json

record PriceResult =
  pr_snapshot_ts_utc :: string
  pr_source :: string
  pr_market_id :: string
  pr_slug :: string
  pr_question :: string
  pr_token_id :: string
  pr_outcome :: string
  bid :: string
  ask :: string
  mid :: string
  pr_active :: json
  status :: string
  pr_volume_num :: json
  pr_liquidity_num :: json

section \<open>Price client (\<^verbatim>\<open>clob.py\<close>)\<close>

text \<open>
  One HTTP exchange: a response with its status code, whether its \<^verbatim>\<open>Retry-After\<close> header
  (5 when absent) is accepted by \<^verbatim>\<open>float()\<close>, and its body as \<^verbatim>\<open>response.json()\<close> decodes it
  (\<open>None\<close> when that raises); or an exception raised by the client. Waiting (rate limiter,
  back-off sleeps) takes time and changes nothing else, so it is not part of the model.
\<close>

datatype http_outcome =
    Response int bool "json option"
  | HttpRaises error

definition MAX_RETRIES :: nat where "MAX_RETRIES = 3"

record request_item =
  item_token_id :: string
  side :: string

text \<open>
  \<^verbatim>\<open>ClobClient._request_with_retry\<close>: \<open>post attempt\<close> is what the \<open>attempt\<close>-th POST of this batch
  meets; the second argument counts the attempts made, the third those left.
\<close>

fun clob_attempts :: "(nat \<Rightarrow> http_outcome) \<Rightarrow> nat \<Rightarrow> nat \<Rightarrow> error + (json \<times> int)" where
  "clob_attempts post attempt 0 = Inr (JObj [], 0)"
| "clob_attempts post attempt (Suc n) =
     (case post attempt of
        HttpRaises e \<Rightarrow>
          if e = RequestError then clob_attempts post (Suc attempt) n else Inl e
      | Response status_code retry_after_ok body \<Rightarrow>
          if status_code = 429 then
            (if retry_after_ok then clob_attempts post (Suc attempt) n else Inl ValueError)
          else if 500 \<le> status_code then clob_attempts post (Suc attempt) n
          else if status_code = 200 then
            (case body of None \<Rightarrow> Inl JSONDecodeError | Some data \<Rightarrow> Inr (data, 200))
          else Inr (JObj [], status_code))"

definition clob_request_with_retry :: "(nat \<Rightarrow> http_outcome) \<Rightarrow> error + (json \<times> int)" where
  "clob_request_with_retry post = clob_attempts post 0 MAX_RETRIES"

text \<open>The environment of a pricing call: what each POST of each batch meets.\<close>

type_synonym clob_http = "nat \<Rightarrow> request_item list \<Rightarrow> nat \<Rightarrow> http_outcome"

definition fetch_batch ::
  "clob_http \<Rightarrow> nat \<Rightarrow> request_item list \<Rightarrow> error + (nat \<times> json \<times> int)" where
  "fetch_batch http batch_num request_items =
     (case clob_request_with_retry (http batch_num request_items) of
        Inl e \<Rightarrow> Inl e
      | Inr (data, st) \<Rightarrow> Inr (batch_num, data, st))"

text \<open>\<^verbatim>\<open>chunk_list\<close> of \<^verbatim>\<open>utils.py\<close>, consumed by \<^verbatim>\<open>list(...)\<close>: \<^verbatim>\<open>range\<close> refuses a zero step.\<close>

function chunks :: "nat \<Rightarrow> 'a list \<Rightarrow> 'a list list" where
  "chunks n xs = (if n = 0 \<or> xs = [] then [] else take n xs # chunks n (drop n xs))"
  by pat_completeness auto
termination
  by (relation "measure (\<lambda>(n, xs). length xs)") auto

declare chunks.simps [simp del]

definition chunk_list :: "'a list \<Rightarrow> int \<Rightarrow> error + 'a list list" where
  "chunk_list items sz =
     (if sz = 0 then Inl ValueError
      else if sz < 0 then Inr []
      else Inr (chunks (nat sz) items))"

fun build_request_items :: "TokenOutcome list \<Rightarrow> request_item list" where
  "build_request_items [] = []"
| "build_request_items (token # rest) =
     \<lparr>item_token_id = token_id token, side = ''BUY''\<rparr>
     # \<lparr>item_token_id = token_id token, side = ''SELL''\<rparr>
     # build_request_items rest"

record raw_response =
  rb_batch_num :: nat
  rb_status :: int
  rb_data :: json

type_synonym prices = "string \<rightharpoonup> (string \<rightharpoonup> string)"

record collect_state =
  all_raw_responses :: "raw_response list"
  prices_by_token :: prices
  api_error_tokens :: "string set"

definition store_sides ::
  "pylib \<Rightarrow> (string \<times> json) list \<Rightarrow> (string \<rightharpoonup> string) \<Rightarrow> (string \<rightharpoonup> string)" where
  "store_sides L sides cur =
     fold (\<lambda>(sd, price) m. if sd = ''BUY'' \<or> sd = ''SELL'' then m(sd \<mapsto> py_str L price) else m)
       sides cur"

definition merge_data :: "pylib \<Rightarrow> (string \<times> json) list \<Rightarrow> prices \<Rightarrow> prices" where
  "merge_data L data ps =
     fold (\<lambda>(tid, sides) p.
             case sides of
               JObj sv \<Rightarrow>
                 p(tid \<mapsto> store_sides L sv (case p tid of None \<Rightarrow> Map.empty | Some m \<Rightarrow> m))
             | _ \<Rightarrow> p)
       data ps"

definition mark_batch :: "request_item list \<Rightarrow> string set \<Rightarrow> string set" where
  "mark_batch batch errs = fold (\<lambda>item e. insert (item_token_id item) e) batch errs"

text \<open>
  The body of the \<^verbatim>\<open>as_completed\<close> loop for one finished future. An exception inside the
  \<^verbatim>\<open>try\<close> (the worker's own, or \<^verbatim>\<open>data.items()\<close> on a truthy value that is no dict) marks
  the tokens of the batch.
\<close>

definition collect_batch ::
  "pylib \<Rightarrow> request_item list list \<Rightarrow> (nat \<Rightarrow> error + (nat \<times> json \<times> int))
     \<Rightarrow> nat \<Rightarrow> collect_state \<Rightarrow> collect_state" where
  "collect_batch L batches future batch_num st =
     (case future batch_num of
        Inl e \<Rightarrow>
          st\<lparr>api_error_tokens := mark_batch (batches ! batch_num) (api_error_tokens st)\<rparr>
      | Inr (_, data, code) \<Rightarrow>
          (let st1 = st\<lparr>all_raw_responses := all_raw_responses st
                          @ [\<lparr>rb_batch_num = batch_num, rb_status = code, rb_data = data\<rparr>]\<rparr>
           in if code = 200 \<and> truthy data then
                (case data of
                   JObj kvs \<Rightarrow> st1\<lparr>prices_by_token := merge_data L kvs (prices_by_token st1)\<rparr>
                 | _ \<Rightarrow>
                   st1\<lparr>api_error_tokens :=
                         mark_batch (batches ! batch_num) (api_error_tokens st1)\<rparr>)
              else if code \<noteq> 200 then
                st1\<lparr>api_error_tokens := mark_batch (batches ! batch_num) (api_error_tokens st1)\<rparr>
              else st1))"

record price_stats =
  stat_tokens_priced_ok :: int
  stat_tokens_missing_price :: int
  stat_api_errors :: int

text \<open>The mid price: \<^verbatim>\<open>(bid_dec + ask_dec) / Decimal(2)\<close> when both strings are there and parse.\<close>

definition compute_mid :: "string \<Rightarrow> string \<Rightarrow> error + string" where
  "compute_mid bid_str ask_str =
     (if bid_str \<noteq> [] \<and> ask_str \<noteq> [] then
        (case parse_decimal bid_str of
           None \<Rightarrow> Inr []
         | Some bid_dec \<Rightarrow>
             (case parse_decimal ask_str of
                None \<Rightarrow> Inr []
              | Some ask_dec \<Rightarrow>
                  (case dec_add bid_dec ask_dec of
                     Inl e \<Rightarrow> Inl e
                   | Inr sum_dec \<Rightarrow>
                       (case dec_truediv sum_dec (DFinite False 2 0) of
                          Inl e \<Rightarrow> Inl e
                        | Inr mid_dec \<Rightarrow> Inr (dec_str mid_dec)))))
      else Inr [])"

definition side_price :: "prices \<Rightarrow> string \<Rightarrow> string \<Rightarrow> string" where
  "side_price ps tid sd =
     (case ps tid of
        None \<Rightarrow> []
      | Some price_data \<Rightarrow> (case price_data sd of None \<Rightarrow> [] | Some p \<Rightarrow> p))"

text \<open>The final loop over the input tokens, with \<^verbatim>\<open>results\<close> and \<^verbatim>\<open>stats\<close> as it builds them.\<close>

fun build_results ::
  "string \<Rightarrow> prices \<Rightarrow> string set \<Rightarrow> TokenOutcome list
     \<Rightarrow> PriceResult list \<times> price_stats \<Rightarrow> error + (PriceResult list \<times> price_stats)" where
  "build_results snapshot_ts ps errs [] acc = Inr acc"
| "build_results snapshot_ts ps errs (token # rest) (results, stats) =
     (let bid_str = side_price ps (token_id token) ''SELL'';
          ask_str = side_price ps (token_id token) ''BUY''
      in case compute_mid bid_str ask_str of
           Inl e \<Rightarrow> Inl e
         | Inr mid_str \<Rightarrow>
             (let (st, stats') =
                    (if token_id token \<in> errs then
                       (''api_error'', stats\<lparr>stat_api_errors := stat_api_errors stats + 1\<rparr>)
                     else if bid_str = [] \<and> ask_str = [] then
                       (''missing_price'',
                        stats\<lparr>stat_tokens_missing_price := stat_tokens_missing_price stats + 1\<rparr>)
                     else
                       (''ok'', stats\<lparr>stat_tokens_priced_ok := stat_tokens_priced_ok stats + 1\<rparr>))
              in build_results snapshot_ts ps errs rest
                   (results @
                      [\<lparr>pr_snapshot_ts_utc = snapshot_ts,
                        pr_source = ''polymarket_clob'',
                        pr_market_id = market_id token,
                        pr_slug = slug token,
                        pr_question = question token,
                        pr_token_id = token_id token,
                        pr_outcome = outcome token,
                        bid = bid_str,
                        ask = ask_str,
                        mid = mid_str,
                        pr_active = active token,
                        status = st,
                        pr_volume_num = volume_num token,
                        pr_liquidity_num = liquidity_num token\<rparr>],
                    stats')))"


definition collect_all ::
  "pylib \<Rightarrow> clob_http \<Rightarrow> request_item list list \<Rightarrow> nat list \<Rightarrow> collect_state" where
  "collect_all L http batches order =
     fold (collect_batch L batches (\<lambda>i. fetch_batch http i (batches ! i))) order
       \<lparr>all_raw_responses = [], prices_by_token = Map.empty, api_error_tokens = {}\<rparr>"

definition fetch_all_prices ::
  "pylib \<Rightarrow> string \<Rightarrow> clob_http \<Rightarrow> nat list \<Rightarrow> TokenOutcome list \<Rightarrow> int \<Rightarrow> int
     \<Rightarrow> string option \<Rightarrow> error + (PriceResult list \<times> raw_response list \<times> price_stats)" where
  "fetch_all_prices L now http order token_outcomes concurrency batch_size snapshot_ts =
     (case chunk_list (build_request_items token_outcomes) batch_size of
        Inl e \<Rightarrow> Inl e
      | Inr batches \<Rightarrow>
          if concurrency \<le> 0 then Inl ValueError
          else
            (let st = collect_all L http batches order
             in case build_results (case snapshot_ts of None \<Rightarrow> now | Some ts \<Rightarrow> ts)
                       (prices_by_token st) (api_error_tokens st) token_outcomes
                       ([], \<lparr>stat_tokens_priced_ok = 0, stat_tokens_missing_price = 0,
                              stat_api_errors = 0\<rparr>) of
                  Inl e \<Rightarrow> Inl e
                | Inr (results, stats) \<Rightarrow> Inr (results, all_raw_responses st, stats)))"

subsection \<open>What the responses deliver, stated apart from the aggregation\<close>

text \<open>
  The prices a decoded response body carries for one token and one side, in the order of
  the body; a value under the token that is no dict carries none.
\<close>

definition side_prices_in :: "pylib \<Rightarrow> (string \<times> json) list \<Rightarrow> string \<Rightarrow> string list" where
  "side_prices_in L sv sd = map (\<lambda>(s, price). py_str L price) (filter (\<lambda>(s, price). s = sd) sv)"

definition token_prices_in ::
  "pylib \<Rightarrow> (string \<times> json) list \<Rightarrow> string \<Rightarrow> string \<Rightarrow> string list" where
  "token_prices_in L data tid sd =
     concat (map (\<lambda>(t, sides).
                    case sides of
                      JObj sv \<Rightarrow> if t = tid then side_prices_in L sv sd else []
                    | _ \<Rightarrow> [])
             data)"

text \<open>A future brings prices when it returns status 200 with a dict.\<close>

definition delivered_by ::
  "pylib \<Rightarrow> (error + (nat \<times> json \<times> int)) \<Rightarrow> string \<Rightarrow> string \<Rightarrow> string list" where
  "delivered_by L res tid sd =
     (case res of
        Inl e \<Rightarrow> []
      | Inr (_, data, code) \<Rightarrow>
          (case data of
             JObj kvs \<Rightarrow> if code = 200 then token_prices_in L kvs tid sd else []
           | _ \<Rightarrow> []))"


definition batches_of :: "TokenOutcome list \<Rightarrow> int \<Rightarrow> request_item list list" where
  "batches_of token_outcomes batch_size =
     (case chunk_list (build_request_items token_outcomes) batch_size of
        Inl e \<Rightarrow> []
      | Inr batches \<Rightarrow> batches)"

definition future_of ::
  "clob_http \<Rightarrow> request_item list list \<Rightarrow> nat \<Rightarrow> error + (nat \<times> json \<times> int)" where
  "future_of http batches i = fetch_batch http i (batches ! i)"

definition delivered ::
  "pylib \<Rightarrow> clob_http \<Rightarrow> request_item list list \<Rightarrow> nat list \<Rightarrow> string \<Rightarrow> string
     \<Rightarrow> string list" where
  "delivered L http batches order tid sd =
     concat (map (\<lambda>i. delivered_by L (future_of http batches i) tid sd) order)"

definition last_or_empty :: "string list \<Rightarrow> string" where
  "last_or_empty ps = (if ps = [] then [] else last ps)"



definition price_lookup :: "prices \<Rightarrow> string \<Rightarrow> string \<Rightarrow> string option" where
  "price_lookup ps tid sd = (case ps tid of None \<Rightarrow> None | Some m \<Rightarrow> m sd)"

text \<open>What the final loop puts into the result of one token.\<close>

definition result_matches ::
  "string \<Rightarrow> prices \<Rightarrow> string set \<Rightarrow> TokenOutcome \<Rightarrow> PriceResult \<Rightarrow> bool" where
  "result_matches ts ps errs token r =
     (pr_snapshot_ts_utc r = ts \<and> pr_source r = ''polymarket_clob''
      \<and> pr_market_id r = market_id token \<and> pr_slug r = slug token
      \<and> pr_question r = question token \<and> pr_token_id r = token_id token
      \<and> pr_outcome r = outcome token \<and> pr_active r = active token
      \<and> pr_volume_num r = volume_num token \<and> pr_liquidity_num r = liquidity_num token
      \<and> bid r = side_price ps (token_id token) ''SELL''
      \<and> ask r = side_price ps (token_id token) ''BUY''
      \<and> compute_mid (bid r) (ask r) = Inr (mid r)
      \<and> status r =
          (if token_id token \<in> errs then ''api_error''
           else if bid r = [] \<and> ask r = [] then ''missing_price'' else ''ok''))"





subsection \<open>Sample inputs\<close>

definition sample_lib :: pylib where
  "sample_lib = \<lparr>str_of = (\<lambda>v. ''None''), json_dumps = (\<lambda>v. ''[]''), json_loads = (\<lambda>s. None)\<rparr>"

definition sample_token :: "string \<Rightarrow> TokenOutcome" where
  "sample_token tid =
     \<lparr>token_id = tid, outcome = ''Yes'', market_id = ''m1'', slug = ''will-it'',
      question = ''Will it?'', active = JBool True, volume_num = JNull, liquidity_num = JNull\<rparr>"

text \<open>A service that answers every batch with both sides of token \<open>t1\<close>.\<close>

definition http_quotes :: clob_http where
  "http_quotes batch_num request_items attempt =
     Response 200 True
       (Some (JObj [(''t1'', JObj [(''BUY'', JStr ''0.55''), (''SELL'', JStr ''0.53'')])]))"





fun results_of ::
  "error + (PriceResult list \<times> raw_response list \<times> price_stats) \<Rightarrow> PriceResult list" where
  "results_of (Inl e) = []"
| "results_of (Inr (results, raw, stats)) = results"




section \<open>Catalog client (\<^verbatim>\<open>gamma.py\<close>)\<close>

text \<open>The query string of one page request; a filter that is not sent is \<open>None\<close>.\<close>

record params =
  p_limit :: int
  p_offset :: int
  p_tag_id :: "string option"
  p_series_id :: "string option"
  p_active :: "string option"
  p_closed :: "string option"

text \<open>The environment of the catalog client: what each GET of a page request meets.\<close>

type_synonym gamma_http = "params \<Rightarrow> nat \<Rightarrow> http_outcome"

text \<open>
  \<^verbatim>\<open>GammaClient._request_with_retry\<close>. It returns the response, here its decoded body, or
  raises: the last transport error (else \<^verbatim>\<open>RuntimeError\<close>) once the attempts are used up,
  and what \<^verbatim>\<open>raise_for_status\<close> raises for a status outside 2xx.
\<close>

fun gamma_attempts ::
  "(nat \<Rightarrow> http_outcome) \<Rightarrow> error option \<Rightarrow> nat \<Rightarrow> nat \<Rightarrow> error + json option" where
  "gamma_attempts get last_error attempt 0 =
     Inl (case last_error of None \<Rightarrow> RuntimeError | Some e \<Rightarrow> e)"
| "gamma_attempts get last_error attempt (Suc n) =
     (case get attempt of
        HttpRaises e \<Rightarrow>
          if e = RequestError then gamma_attempts get (Some e) (Suc attempt) n else Inl e
      | Response status_code retry_after_ok body \<Rightarrow>
          if status_code = 429 then
            (if retry_after_ok then gamma_attempts get last_error (Suc attempt) n
             else Inl ValueError)
          else if 500 \<le> status_code then gamma_attempts get last_error (Suc attempt) n
          else if 200 \<le> status_code \<and> status_code < 300 then Inr body
          else Inl HTTPStatusError)"

definition gamma_request_with_retry :: "(nat \<Rightarrow> http_outcome) \<Rightarrow> error + json option" where
  "gamma_request_with_retry get = gamma_attempts get None 0 MAX_RETRIES"

text \<open>\<^verbatim>\<open>parse_json_string_field\<close> of \<^verbatim>\<open>utils.py\<close>: a list, or \<^verbatim>\<open>None\<close>.\<close>

definition parse_json_string_field :: "pylib \<Rightarrow> json \<Rightarrow> json" where
  "parse_json_string_field L v =
     (case v of
        JList xs \<Rightarrow> JList xs
      | JStr s \<Rightarrow>
          if take 1 (strip s) = ''[''
          then (case json_loads L (strip s) of
                  None \<Rightarrow> JNull
                | Some parsed \<Rightarrow> (case parsed of JList xs \<Rightarrow> JList xs | _ \<Rightarrow> JNull))
          else JNull
      | _ \<Rightarrow> JNull)"

text \<open>\<^verbatim>\<open>needle in hay\<close> on strings.\<close>

fun starts_with :: "string \<Rightarrow> string \<Rightarrow> bool" where
  "starts_with hay [] = True"
| "starts_with [] (c # needle) = False"
| "starts_with (h # hay) (c # needle) = (h = c \<and> starts_with hay needle)"

fun str_contains :: "string \<Rightarrow> string \<Rightarrow> bool" where
  "str_contains [] needle = (needle = [])"
| "str_contains (h # hay) needle = (starts_with (h # hay) needle \<or> str_contains hay needle)"

text \<open>A loop body that may raise, run over a list: the first exception ends it.\<close>

fun map_err :: "('a \<Rightarrow> error + 'b) \<Rightarrow> 'a list \<Rightarrow> error + 'b list" where
  "map_err f [] = Inr []"
| "map_err f (x # xs) =
     (case f x of
        Inl e \<Rightarrow> Inl e
      | Inr y \<Rightarrow> (case map_err f xs of Inl e \<Rightarrow> Inl e | Inr ys \<Rightarrow> Inr (y # ys)))"

text \<open>The two derived fields written into one nested market; \<^verbatim>\<open>market.get\<close> needs a dict.\<close>

definition parse_market :: "pylib \<Rightarrow> json \<Rightarrow> error + json" where
  "parse_market L market =
     (case market of
        JObj m \<Rightarrow>
          Inr (JObj (dict_set
                       (dict_set m ''_outcomes_parsed''
                          (parse_json_string_field L (dict_get m ''outcomes'' JNull)))
                       ''_clobTokenIds_parsed''
                       (parse_json_string_field L (dict_get m ''clobTokenIds'' JNull))))
      | _ \<Rightarrow> Inl AttributeError)"

text \<open>
  The processing of one event of a page: \<^verbatim>\<open>"markets" in event\<close>, then the loop over
  \<^verbatim>\<open>event["markets"]\<close>, with what Python does on each shape of value.
\<close>

definition parse_event_markets :: "pylib \<Rightarrow> json \<Rightarrow> error + json" where
  "parse_event_markets L event =
     (case event of
        JObj e \<Rightarrow>
          (case map_of e ''markets'' of
             None \<Rightarrow> Inr event
           | Some ms \<Rightarrow>
               (case ms of
                  JList xs \<Rightarrow>
                    (case map_err (parse_market L) xs of
                       Inl er \<Rightarrow> Inl er
                     | Inr xs' \<Rightarrow> Inr (JObj (dict_set e ''markets'' (JList xs'))))
                | JObj kvs \<Rightarrow> if kvs = [] then Inr event else Inl AttributeError
                | JStr s \<Rightarrow> if s = [] then Inr event else Inl AttributeError
                | _ \<Rightarrow> Inl TypeError))
      | JList xs \<Rightarrow> if JStr ''markets'' \<in> set xs then Inl TypeError else Inr event
      | JStr s \<Rightarrow> if str_contains s ''markets'' then Inl TypeError else Inr event
      | _ \<Rightarrow> Inl TypeError)"

text \<open>The arguments of \<^verbatim>\<open>fetch_all_events\<close>.\<close>

record query =
  q_tag_id :: "string option"
  q_series_id :: "string option"
  q_max_events :: "int option"
  q_page_size :: int
  q_max_pages :: int
  q_active :: "bool option"
  q_closed :: "bool option"

definition str_truthy :: "string option \<Rightarrow> bool" where
  "str_truthy s = (case s of None \<Rightarrow> False | Some t \<Rightarrow> t \<noteq> [])"

definition int_truthy :: "int option \<Rightarrow> bool" where
  "int_truthy n = (case n of None \<Rightarrow> False | Some k \<Rightarrow> k \<noteq> 0)"

text \<open>\<^verbatim>\<open>limit and count >= limit\<close>, for \<^verbatim>\<open>max_events\<close> and \<^verbatim>\<open>max_markets\<close>.\<close>

definition limit_reached :: "int option \<Rightarrow> int \<Rightarrow> bool" where
  "limit_reached cap n = (case cap of None \<Rightarrow> False | Some k \<Rightarrow> k \<noteq> 0 \<and> k \<le> n)"

definition bool_lower :: "bool \<Rightarrow> string" where
  "bool_lower b = (if b then ''true'' else ''false'')"

definition build_params :: "query \<Rightarrow> int \<Rightarrow> params" where
  "build_params q offset =
     \<lparr>p_limit = q_page_size q,
      p_offset = offset,
      p_tag_id = (if str_truthy (q_tag_id q) then q_tag_id q else None),
      p_series_id = (if str_truthy (q_series_id q) then q_series_id q else None),
      p_active = map_option bool_lower (q_active q),
      p_closed = map_option bool_lower (q_closed q)\<rparr>"

text \<open>
  The \<^verbatim>\<open>while\<close> loop of \<^verbatim>\<open>fetch_all_events\<close>, with the list of the page requests it has sent.
\<close>

function fetch_pages ::
  "pylib \<Rightarrow> gamma_http \<Rightarrow> query \<Rightarrow> json list \<Rightarrow> int \<Rightarrow> int \<Rightarrow> params list
     \<Rightarrow> params list \<times> (error + json list)" where
  "fetch_pages L http q all_events offset page sent =
     (if page < q_max_pages q then
        (if limit_reached (q_max_events q) (int (length all_events)) then (sent, Inr all_events)
         else
           (case gamma_request_with_retry (http (build_params q offset)) of
              Inl e \<Rightarrow> (sent @ [build_params q offset], Inl e)
            | Inr body \<Rightarrow>
                (case body of
                   None \<Rightarrow> (sent @ [build_params q offset], Inl JSONDecodeError)
                 | Some events \<Rightarrow>
                     (case events of
                        JList evs \<Rightarrow>
                          if evs = [] then (sent @ [build_params q offset], Inr all_events)
                          else
                            (case map_err (parse_event_markets L) evs of
                               Inl e \<Rightarrow> (sent @ [build_params q offset], Inl e)
                             | Inr evs' \<Rightarrow>
                                 if int (length evs) < q_page_size q
                                 then (sent @ [build_params q offset], Inr (all_events @ evs'))
                                 else fetch_pages L http q (all_events @ evs')
                                        (offset + int (length evs)) (page + 1)
                                        (sent @ [build_params q offset]))
                      | _ \<Rightarrow> (sent @ [build_params q offset], Inr all_events)))))
      else (sent, Inr all_events))"
  by pat_completeness auto
termination
  by (relation "measure (\<lambda>(L, http, q, all_events, offset, page, sent). nat (q_max_pages q - page))")
     auto

declare fetch_pages.simps [simp del]

text \<open>\<^verbatim>\<open>xs[:n]\<close>.\<close>

definition slice_to :: "'a list \<Rightarrow> int \<Rightarrow> 'a list" where
  "slice_to xs n = (if 0 \<le> n then take (nat n) xs else take (nat (int (length xs) + n)) xs)"

definition fetch_all_events ::
  "pylib \<Rightarrow> gamma_http \<Rightarrow> query \<Rightarrow> params list \<times> (error + json list)" where
  "fetch_all_events L http q =
     (case fetch_pages L http q [] 0 0 [] of
        (sent, Inl e) \<Rightarrow> (sent, Inl e)
      | (sent, Inr all_events) \<Rightarrow>
          (sent,
           Inr (case q_max_events q of
                  None \<Rightarrow> all_events
                | Some n \<Rightarrow> if n \<noteq> 0 then slice_to all_events n else all_events)))"

section \<open>Orchestrator (\<^verbatim>\<open>runner.py\<close>)\<close>

subsection \<open>Python operations on decoded values\<close>

text \<open>\<^verbatim>\<open>len(x)\<close>; a dict holds each key once.\<close>

definition py_len :: "json \<Rightarrow> error + nat" where
  "py_len v =
     (case v of
        JList xs \<Rightarrow> Inr (length xs)
      | JStr s \<Rightarrow> Inr (length s)
      | JObj kvs \<Rightarrow> Inr (length kvs)
      | _ \<Rightarrow> Inl TypeError)"

text \<open>The values \<^verbatim>\<open>for x in v\<close> runs through.\<close>

definition py_iter :: "json \<Rightarrow> error + json list" where
  "py_iter v =
     (case v of
        JList xs \<Rightarrow> Inr xs
      | JStr s \<Rightarrow> Inr (map (\<lambda>c. JStr [c]) s)
      | JObj kvs \<Rightarrow> Inr (map (\<lambda>(k, x). JStr k) kvs)
      | _ \<Rightarrow> Inl TypeError)"

text \<open>\<^verbatim>\<open>v[i]\<close> for an index \<open>i\<close> below \<^verbatim>\<open>len(v)\<close>; a dict has no integer key.\<close>

definition py_index :: "json \<Rightarrow> nat \<Rightarrow> error + json" where
  "py_index v i =
     (case v of
        JList xs \<Rightarrow> Inr (xs ! i)
      | JStr s \<Rightarrow> Inr (JStr [s ! i])
      | JObj kvs \<Rightarrow> Inl (OtherError ''KeyError'')
      | _ \<Rightarrow> Inl TypeError)"

text \<open>\<^verbatim>\<open>a or b\<close>.\<close>

definition py_or :: "json \<Rightarrow> json \<Rightarrow> json" where
  "py_or a b = (if truthy a then a else b)"

text \<open>
  \<^verbatim>\<open>str.lower()\<close> on code points below 256: the letters A to Z and the capital letters
  of Latin-1 (192 to 222 without the multiplication sign 215) move up by 32.
\<close>

definition lower_char :: "char \<Rightarrow> char" where
  "lower_char c =
     (let n = (of_char c :: nat)
      in if (65 \<le> n \<and> n \<le> 90) \<or> (192 \<le> n \<and> n \<le> 222 \<and> n \<noteq> 215) then char_of (n + 32)
         else c)"

definition py_lower :: "string \<Rightarrow> string" where
  "py_lower s = map lower_char s"

text \<open>\<^verbatim>\<open>str(i)\<close> of an integer, and \<^verbatim>\<open>f"{n:04d}"\<close>.\<close>

definition str_int :: "int \<Rightarrow> string" where
  "str_int i = (if i < 0 then ''-'' @ show_nat (nat (- i)) else show_nat (nat i))"

definition pad4 :: "nat \<Rightarrow> string" where
  "pad4 n = replicate (4 - length (show_nat n)) CHR ''0'' @ show_nat n"

text \<open>
  \<^verbatim>\<open>safe_json_dumps\<close>: with \<^verbatim>\<open>default=str\<close> the first \<^verbatim>\<open>json.dumps\<close> accepts every decoded
  value, so the fallback is never taken.
\<close>

definition safe_json_dumps :: "pylib \<Rightarrow> json \<Rightarrow> string" where
  "safe_json_dumps L obj = json_dumps L obj"

subsection \<open>Records of the run\<close>

record MarketRecord =
  mr_pulled_at_utc :: string
  mr_source :: string
  mr_market_id :: string
  mr_slug :: string
  mr_question :: string
  mr_category :: string
  mr_condition_id :: string
  mr_active :: json
  mr_closed :: json
  mr_end_date_utc :: string
  mr_outcomes_json :: string
  mr_clob_token_ids_json :: string
  mr_volume_num :: json
  mr_liquidity_num :: json

text \<open>A path is the list of its components.\<close>

type_synonym path = "string list"

record RunManifest =
  mf_start_ts_utc :: string
  mf_end_ts_utc :: string
  mf_duration_seconds :: real
  mf_date :: string
  mf_markets_total :: int
  mf_markets_with_tokens :: int
  mf_markets_skipped_no_tokens :: int
  mf_markets_skipped_mismatched_arrays :: int
  mf_markets_not_clob_tradable :: int
  mf_tokens_total :: int
  mf_tokens_priced_ok :: int
  mf_tokens_missing_price :: int
  mf_api_errors :: int
  mf_price_batches :: int
  mf_files :: "(string \<times> path) list"

subsection \<open>Extraction of one market\<close>

definition extract_category :: "(string \<times> json) list \<Rightarrow> json" where
  "extract_category event =
     (let category = dict_get event ''category'' (JStr [])
      in if \<not> truthy category \<and> truthy (dict_get event ''tags'' JNull) then
           (case dict_get event ''tags'' JNull of
              JList tags \<Rightarrow>
                (case tags of
                   [] \<Rightarrow> category
                 | first_tag # rest \<Rightarrow>
                     (case first_tag of
                        JObj t \<Rightarrow>
                          py_or (dict_get t ''label'' JNull)
                            (py_or (dict_get t ''slug'' JNull) (JStr []))
                      | JStr s \<Rightarrow> JStr s
                      | _ \<Rightarrow> category))
            | _ \<Rightarrow> category)
         else category)"

definition extract_market_record ::
  "pylib \<Rightarrow> (string \<times> json) list \<Rightarrow> (string \<times> json) list \<Rightarrow> string \<Rightarrow> MarketRecord" where
  "extract_market_record L market event pulled_at =
     \<lparr>mr_pulled_at_utc = pulled_at,
      mr_source = ''polymarket_gamma'',
      mr_market_id = py_str L (dict_get market ''id'' (JStr [])),
      mr_slug = py_str L (dict_get market ''slug'' (JStr [])),
      mr_question = py_str L (dict_get market ''question'' (JStr [])),
      mr_category = py_str L (extract_category event),
      mr_condition_id = py_str L (dict_get market ''conditionId'' (JStr [])),
      mr_active = dict_get market ''active'' JNull,
      mr_closed = dict_get market ''closed'' JNull,
      mr_end_date_utc =
        py_str L (py_or (dict_get market ''endDateIso'' JNull)
                    (py_or (dict_get market ''endDate'' JNull) (JStr []))),
      mr_outcomes_json =
        safe_json_dumps L (py_or (dict_get market ''_outcomes_parsed'' JNull) (JList [])),
      mr_clob_token_ids_json =
        safe_json_dumps L (py_or (dict_get market ''_clobTokenIds_parsed'' JNull) (JList [])),
      mr_volume_num = dict_get market ''volumeNum'' JNull,
      mr_liquidity_num = dict_get market ''liquidityNum'' JNull\<rparr>"

text \<open>The loop of \<^verbatim>\<open>extract_token_outcomes\<close> over \<^verbatim>\<open>enumerate(token_ids)\<close>, from index \<open>i\<close> on.\<close>

fun token_loop ::
  "pylib \<Rightarrow> (string \<times> json) list \<Rightarrow> json \<Rightarrow> nat \<Rightarrow> nat \<Rightarrow> json list \<Rightarrow> TokenOutcome list
     \<Rightarrow> error + TokenOutcome list" where
  "token_loop L market outcomes n i [] result = Inr result"
| "token_loop L market outcomes n i (tid # rest) result =
     (if \<not> truthy tid then token_loop L market outcomes n (Suc i) rest result
      else
        (case (if i < n then py_index outcomes i else Inr (JStr [])) of
           Inl e \<Rightarrow> Inl e
         | Inr label \<Rightarrow>
             token_loop L market outcomes n (Suc i) rest
               (result @
                [\<lparr>token_id = py_str L tid,
                  outcome = py_str L label,
                  market_id = py_str L (dict_get market ''id'' (JStr [])),
                  slug = py_str L (dict_get market ''slug'' (JStr [])),
                  question = py_str L (dict_get market ''question'' (JStr [])),
                  active = dict_get market ''active'' JNull,
                  volume_num = dict_get market ''volumeNum'' JNull,
                  liquidity_num = dict_get market ''liquidityNum'' JNull\<rparr>])))"

definition extract_token_outcomes ::
  "pylib \<Rightarrow> (string \<times> json) list \<Rightarrow> error + TokenOutcome list option" where
  "extract_token_outcomes L market =
     (let outcomes = dict_get market ''_outcomes_parsed'' JNull;
          token_ids = dict_get market ''_clobTokenIds_parsed'' JNull
      in if \<not> truthy outcomes \<or> \<not> truthy token_ids then Inr None
         else
           (case py_len outcomes of
              Inl e \<Rightarrow> Inl e
            | Inr n \<Rightarrow>
                (case py_len token_ids of
                   Inl e \<Rightarrow> Inl e
                 | Inr m \<Rightarrow>
                     if n \<noteq> m then Inr None
                     else
                       (case py_iter token_ids of
                          Inl e \<Rightarrow> Inl e
                        | Inr tids \<Rightarrow>
                            (case token_loop L market outcomes n 0 tids [] of
                               Inl e \<Rightarrow> Inl e
                             | Inr result \<Rightarrow>
                                 Inr (if result \<noteq> [] then Some result else None))))))"

subsection \<open>The extraction loop of \<^verbatim>\<open>run_fetch\<close>\<close>

record extraction =
  market_records :: "MarketRecord list"
  all_token_outcomes :: "TokenOutcome list"
  markets_with_tokens :: int
  markets_skipped_no_tokens :: int
  markets_skipped_mismatched :: int
  markets_not_clob_tradable :: int
  total_markets_processed :: int

definition extraction_start :: extraction where
  "extraction_start =
     \<lparr>market_records = [], all_token_outcomes = [], markets_with_tokens = 0,
      markets_skipped_no_tokens = 0, markets_skipped_mismatched = 0,
      markets_not_clob_tradable = 0, total_markets_processed = 0\<rparr>"

text \<open>The body of the inner loop after the record of an accepted market has been appended.\<close>

definition classify_market ::
  "pylib \<Rightarrow> (string \<times> json) list \<Rightarrow> extraction \<Rightarrow> error + extraction" where
  "classify_market L market st =
     (let outcomes = dict_get market ''_outcomes_parsed'' JNull;
          token_ids = dict_get market ''_clobTokenIds_parsed'' JNull
      in if \<not> truthy outcomes \<or> \<not> truthy token_ids
         then Inr (st\<lparr>markets_skipped_no_tokens := markets_skipped_no_tokens st + 1\<rparr>)
         else
           (case py_len outcomes of
              Inl e \<Rightarrow> Inl e
            | Inr n \<Rightarrow>
                (case py_len token_ids of
                   Inl e \<Rightarrow> Inl e
                 | Inr m \<Rightarrow>
                     if n \<noteq> m
                     then Inr (st\<lparr>markets_skipped_mismatched := markets_skipped_mismatched st + 1\<rparr>)
                     else
                       (let st1 =
                              (if dict_get market ''enableOrderBook'' JNull = JBool False
                               then st\<lparr>markets_not_clob_tradable :=
                                          markets_not_clob_tradable st + 1\<rparr>
                               else st)
                        in case extract_token_outcomes L market of
                             Inl e \<Rightarrow> Inl e
                           | Inr token_outcomes \<Rightarrow>
                               (case token_outcomes of
                                  None \<Rightarrow>
                                    Inr (st1\<lparr>markets_skipped_no_tokens :=
                                               markets_skipped_no_tokens st1 + 1\<rparr>)
                                | Some tos \<Rightarrow>
                                    if tos \<noteq> []
                                    then Inr (st1\<lparr>all_token_outcomes :=
                                                    all_token_outcomes st1 @ tos,
                                                  markets_with_tokens :=
                                                    markets_with_tokens st1 + 1\<rparr>)
                                    else Inr (st1\<lparr>markets_skipped_no_tokens :=
                                                    markets_skipped_no_tokens st1 + 1\<rparr>))))))"

text \<open>\<^verbatim>\<open>category_filter\<close> is set and is no substring of the record's category, case ignored.\<close>

definition filter_rejects :: "string option \<Rightarrow> string \<Rightarrow> bool" where
  "filter_rejects category_filter category =
     (case category_filter of
        None \<Rightarrow> False
      | Some f \<Rightarrow> f \<noteq> [] \<and> \<not> str_contains (py_lower category) (py_lower f))"

text \<open>The body of the inner loop below the \<^verbatim>\<open>max_markets\<close> check.\<close>

definition process_market ::
  "pylib \<Rightarrow> string \<Rightarrow> string option \<Rightarrow> (string \<times> json) list \<Rightarrow> json \<Rightarrow> extraction
     \<Rightarrow> error + extraction" where
  "process_market L pulled_at category_filter event market st =
     (case market of
        JObj m \<Rightarrow>
          if filter_rejects category_filter (mr_category (extract_market_record L m event pulled_at))
          then Inr st
          else classify_market L m
                 (st\<lparr>total_markets_processed := total_markets_processed st + 1,
                     market_records :=
                       market_records st @ [extract_market_record L m event pulled_at]\<rparr>)
      | _ \<Rightarrow> Inl AttributeError)"

fun markets_loop ::
  "pylib \<Rightarrow> int option \<Rightarrow> string \<Rightarrow> string option \<Rightarrow> (string \<times> json) list \<Rightarrow> json list
     \<Rightarrow> extraction \<Rightarrow> error + extraction" where
  "markets_loop L max_markets pulled_at category_filter event [] st = Inr st"
| "markets_loop L max_markets pulled_at category_filter event (market # rest) st =
     (if limit_reached max_markets (total_markets_processed st) then Inr st
      else
        (case process_market L pulled_at category_filter event market st of
           Inl e \<Rightarrow> Inl e
         | Inr st' \<Rightarrow> markets_loop L max_markets pulled_at category_filter event rest st'))"

fun events_loop ::
  "pylib \<Rightarrow> int option \<Rightarrow> string \<Rightarrow> string option \<Rightarrow> json list \<Rightarrow> extraction
     \<Rightarrow> error + extraction" where
  "events_loop L max_markets pulled_at category_filter [] st = Inr st"
| "events_loop L max_markets pulled_at category_filter (event # rest) st =
     (case event of
        JObj e \<Rightarrow>
          (case dict_get e ''markets'' (JList []) of
             JList event_markets \<Rightarrow>
               (case markets_loop L max_markets pulled_at category_filter e event_markets st of
                  Inl er \<Rightarrow> Inl er
                | Inr st' \<Rightarrow>
                    if limit_reached max_markets (total_markets_processed st') then Inr st'
                    else events_loop L max_markets pulled_at category_filter rest st')
           | _ \<Rightarrow> events_loop L max_markets pulled_at category_filter rest st)
      | _ \<Rightarrow> Inl AttributeError)"

subsection \<open>\<^verbatim>\<open>run_fetch\<close>\<close>

record config =
  cfg_date_str :: "string option"
  cfg_outdir :: "path option"
  cfg_tag_id :: "string option"
  cfg_max_markets :: "int option"
  cfg_concurrency :: int
  cfg_batch_size :: int
  cfg_dry_run :: bool
  cfg_gamma_rate :: real
  cfg_gamma_page_size :: int
  cfg_clob_rate :: real
  cfg_active_only :: bool
  cfg_category_filter :: "string option"
  cfg_sports_series_ids :: "int list option"

text \<open>
  What a run meets: the library, the readings of the clock (the start as time stamp and as
  date, the time stamp taken before extraction, the end, the duration), the catalog
  service as the \<open>k\<close>-th enumeration of the run meets it, the price service, and the order
  in which the price batches complete. The file system accepts every write.
\<close>

record environment =
  env_lib :: pylib
  env_start_ts :: string
  env_today :: string
  env_pulled_at :: string
  env_end_ts :: string
  env_duration :: real
  env_gamma :: "nat \<Rightarrow> gamma_http"
  env_clob :: clob_http
  env_order :: "nat list"

text \<open>What a write puts into a file.\<close>

datatype content =
    RawJson "json list"
  | MarketsCsv "MarketRecord list"
  | BatchJson raw_response
  | PricesCsv "PriceResult list"
  | CopyOf path
  | ManifestJson RunManifest

text \<open>
  What can be seen of a run: the calls of \<^verbatim>\<open>fetch_all_events\<close> with their arguments, the
  page requests sent, the files written in order, and the manifest returned or the
  exception that ended the run.
\<close>

record run =
  run_calls :: "query list"
  run_sent :: "params list"
  run_written :: "(path \<times> content) list"
  run_returned :: "error + RunManifest"

definition DEFAULT_MAX_PAGES :: int where
  "DEFAULT_MAX_PAGES = 500"

text \<open>The arguments \<^verbatim>\<open>run_fetch\<close> gives to \<^verbatim>\<open>fetch_all_events\<close>; the rest are its defaults.\<close>

definition events_query :: "config \<Rightarrow> string option \<Rightarrow> string option \<Rightarrow> query" where
  "events_query c tag series =
     \<lparr>q_tag_id = tag,
      q_series_id = series,
      q_max_events = (if int_truthy (cfg_max_markets c) then cfg_max_markets c else None),
      q_page_size = cfg_gamma_page_size c,
      q_max_pages = DEFAULT_MAX_PAGES,
      q_active = (if cfg_active_only c then Some True else None),
      q_closed = (if cfg_active_only c then Some False else None)\<rparr>"

text \<open>
  Sports mode: one enumeration per series id, from the \<open>k\<close>-th of the run on; the first
  exception ends the loop.
\<close>

fun series_loop ::
  "environment \<Rightarrow> config \<Rightarrow> nat \<Rightarrow> int list \<Rightarrow> query list \<Rightarrow> params list \<Rightarrow> json list
     \<Rightarrow> query list \<times> params list \<times> (error + json list)" where
  "series_loop E c k [] calls sent raw_events = (calls, sent, Inr raw_events)"
| "series_loop E c k (sport_series_id # rest) calls sent raw_events =
     (case fetch_all_events (env_lib E) (env_gamma E k)
             (events_query c None (Some (str_int sport_series_id))) of
        (ps, Inl e) \<Rightarrow>
          (calls @ [events_query c None (Some (str_int sport_series_id))], sent @ ps, Inl e)
      | (ps, Inr events) \<Rightarrow>
          series_loop E c (Suc k) rest
            (calls @ [events_query c None (Some (str_int sport_series_id))]) (sent @ ps)
            (raw_events @ events))"

text \<open>Step 1 of \<^verbatim>\<open>run_fetch\<close>.\<close>

definition fetch_events ::
  "environment \<Rightarrow> config \<Rightarrow> query list \<times> params list \<times> (error + json list)" where
  "fetch_events E c =
     (case cfg_sports_series_ids c of
        Some (sport_series_id # rest) \<Rightarrow> series_loop E c 0 (sport_series_id # rest) [] [] []
      | _ \<Rightarrow>
          (case fetch_all_events (env_lib E) (env_gamma E 0) (events_query c (cfg_tag_id c) None) of
             (ps, res) \<Rightarrow> ([events_query c (cfg_tag_id c) None], ps, res)))"

definition the_date :: "environment \<Rightarrow> config \<Rightarrow> string" where
  "the_date E c = (case cfg_date_str c of None \<Rightarrow> env_today E | Some d \<Rightarrow> d)"

definition the_outdir :: "config \<Rightarrow> path" where
  "the_outdir c = (case cfg_outdir c of None \<Rightarrow> [''data''] | Some p \<Rightarrow> p)"

text \<open>The paths of \<^verbatim>\<open>ensure_dirs\<close> and the files \<^verbatim>\<open>run_fetch\<close> puts below them.\<close>

definition raw_gamma_path :: "environment \<Rightarrow> config \<Rightarrow> path" where
  "raw_gamma_path E c = the_outdir c @ [''raw'', ''gamma'', ''events_'' @ the_date E c @ ''.json'']"

definition markets_csv_path :: "environment \<Rightarrow> config \<Rightarrow> path" where
  "markets_csv_path E c = the_outdir c @ [''markets'', ''markets_'' @ the_date E c @ ''.csv'']"

definition prices_csv_path :: "environment \<Rightarrow> config \<Rightarrow> path" where
  "prices_csv_path E c = the_outdir c @ [''prices'', ''prices_'' @ the_date E c @ ''.csv'']"

definition latest_csv_path :: "config \<Rightarrow> path" where
  "latest_csv_path c = the_outdir c @ [''prices'', ''latest.csv'']"

definition manifest_path :: "environment \<Rightarrow> config \<Rightarrow> path" where
  "manifest_path E c = the_outdir c @ [''run'', ''run_manifest_'' @ the_date E c @ ''.json'']"

definition clob_batch_path :: "environment \<Rightarrow> config \<Rightarrow> nat \<Rightarrow> path" where
  "clob_batch_path E c batch_num =
     the_outdir c @ [''raw'', ''clob'', ''prices_batches'', ''markets_'' @ the_date E c,
                     ''batch_'' @ pad4 batch_num @ ''.json'']"

text \<open>The manifest after step 3: the counters of the extraction and the first two files.\<close>

definition manifest_after_extraction :: "environment \<Rightarrow> config \<Rightarrow> extraction \<Rightarrow> RunManifest" where
  "manifest_after_extraction E c st =
     \<lparr>mf_start_ts_utc = env_start_ts E,
      mf_end_ts_utc = [],
      mf_duration_seconds = 0,
      mf_date = the_date E c,
      mf_markets_total = total_markets_processed st,
      mf_markets_with_tokens = markets_with_tokens st,
      mf_markets_skipped_no_tokens = markets_skipped_no_tokens st,
      mf_markets_skipped_mismatched_arrays = markets_skipped_mismatched st,
      mf_markets_not_clob_tradable = markets_not_clob_tradable st,
      mf_tokens_total = int (length (all_token_outcomes st)),
      mf_tokens_priced_ok = 0,
      mf_tokens_missing_price = 0,
      mf_api_errors = 0,
      mf_price_batches = 0,
      mf_files = [(''raw_gamma'', raw_gamma_path E c), (''markets_csv'', markets_csv_path E c)]\<rparr>"

definition finish :: "environment \<Rightarrow> RunManifest \<Rightarrow> RunManifest" where
  "finish E manifest =
     manifest\<lparr>mf_end_ts_utc := env_end_ts E, mf_duration_seconds := env_duration E\<rparr>"

text \<open>Steps 4 to 8, after the markets file has been written.\<close>

definition price_and_finish ::
  "environment \<Rightarrow> config \<Rightarrow> extraction \<Rightarrow> (path \<times> content) list
     \<Rightarrow> (path \<times> content) list \<times> (error + RunManifest)" where
  "price_and_finish E c st written =
     (let manifest = manifest_after_extraction E c st
      in if cfg_dry_run c
         then (written @ [(manifest_path E c, ManifestJson (finish E manifest))],
               Inr (finish E manifest))
         else if all_token_outcomes st \<noteq> [] then
           (case fetch_all_prices (env_lib E) (env_pulled_at E) (env_clob E) (env_order E)
                   (all_token_outcomes st) (cfg_concurrency c) (cfg_batch_size c)
                   (Some (env_pulled_at E)) of
              Inl e \<Rightarrow> (written, Inl e)
            | Inr (price_results, raw_batches, price_stats) \<Rightarrow>
                (let priced =
                       manifest
                         \<lparr>mf_price_batches := int (length raw_batches),
                          mf_tokens_priced_ok := stat_tokens_priced_ok price_stats,
                          mf_tokens_missing_price := stat_tokens_missing_price price_stats,
                          mf_api_errors := stat_api_errors price_stats,
                          mf_files := mf_files manifest
                                        @ [(''prices_csv'', prices_csv_path E c),
                                           (''latest_csv'', latest_csv_path c)]\<rparr>
                 in (written
                       @ map (\<lambda>b. (clob_batch_path E c (rb_batch_num b), BatchJson b)) raw_batches
                       @ [(prices_csv_path E c, PricesCsv price_results),
                          (latest_csv_path c, CopyOf (prices_csv_path E c)),
                          (manifest_path E c, ManifestJson (finish E priced))],
                     Inr ((finish E priced)
                            \<lparr>mf_files := mf_files priced
                                           @ [(''manifest'', manifest_path E c)]\<rparr>))))
         else (written @ [(manifest_path E c, ManifestJson (finish E manifest))],
               Inr ((finish E manifest)
                      \<lparr>mf_files := mf_files manifest @ [(''manifest'', manifest_path E c)]\<rparr>)))"

definition run_fetch :: "environment \<Rightarrow> config \<Rightarrow> run" where
  "run_fetch E c =
     (if cfg_gamma_rate c = 0 \<or> cfg_clob_rate c = 0
      then \<lparr>run_calls = [], run_sent = [], run_written = [], run_returned = Inl ZeroDivisionError\<rparr>
      else
        (case fetch_events E c of
           (calls, sent, Inl e) \<Rightarrow>
             \<lparr>run_calls = calls, run_sent = sent, run_written = [], run_returned = Inl e\<rparr>
         | (calls, sent, Inr raw_events) \<Rightarrow>
             (case events_loop (env_lib E) (cfg_max_markets c) (env_pulled_at E)
                     (cfg_category_filter c) raw_events extraction_start of
                Inl e \<Rightarrow>
                  \<lparr>run_calls = calls, run_sent = sent,
                   run_written = [(raw_gamma_path E c, RawJson raw_events)],
                   run_returned = Inl e\<rparr>
              | Inr st \<Rightarrow>
                  (case price_and_finish E c st
                          [(raw_gamma_path E c, RawJson raw_events),
                           (markets_csv_path E c, MarketsCsv (market_records st))] of
                     (written, res) \<Rightarrow>
                       \<lparr>run_calls = calls, run_sent = sent, run_written = written,
                        run_returned = res\<rparr>))))"

section \<open>Properties of the price client\<close>

lemma side_price_lookup:
  "side_price ps tid sd = (case price_lookup ps tid sd of None \<Rightarrow> [] | Some p \<Rightarrow> p)"
  by (simp add: side_price_def price_lookup_def split: option.splits)

lemma store_sides_lookup:
  assumes "sd = ''BUY'' \<or> sd = ''SELL''"
  shows "store_sides L sv cur sd =
     (if side_prices_in L sv sd = [] then cur sd else Some (last (side_prices_in L sv sd)))"
  using assms
proof (induction sv arbitrary: cur)
  case Nil
  then show ?case by (simp add: store_sides_def side_prices_in_def)
next
  case (Cons a sv)
  obtain s p where a: "a = (s, p)" by (cases a)
  have step: "store_sides L (a # sv) cur =
      store_sides L sv (if s = ''BUY'' \<or> s = ''SELL'' then cur(s \<mapsto> py_str L p) else cur)"
    by (simp add: store_sides_def a)
  show ?case
    unfolding step using Cons.prems
    by (subst Cons.IH) (auto simp: side_prices_in_def a)
qed

lemma merge_data_lookup:
  assumes "sd = ''BUY'' \<or> sd = ''SELL''"
  shows "price_lookup (merge_data L data ps) tid sd =
     (if token_prices_in L data tid sd = [] then price_lookup ps tid sd
      else Some (last (token_prices_in L data tid sd)))"
  using assms
proof (induction data arbitrary: ps)
  case Nil
  then show ?case by (simp add: merge_data_def token_prices_in_def)
next
  case (Cons a data)
  obtain t sides where a: "a = (t, sides)" by (cases a)
  define ps' where "ps' = (case sides of
               JObj sv \<Rightarrow>
                 ps(t \<mapsto> store_sides L sv (case ps t of None \<Rightarrow> Map.empty | Some m \<Rightarrow> m))
             | _ \<Rightarrow> ps)"
  have step: "merge_data L (a # data) ps = merge_data L data ps'"
    by (simp add: merge_data_def a ps'_def)
  have tp: "token_prices_in L (a # data) tid sd =
       (case sides of JObj sv \<Rightarrow> if t = tid then side_prices_in L sv sd else [] | _ \<Rightarrow> [])
       @ token_prices_in L data tid sd"
    by (simp add: token_prices_in_def a)
  have hd: "price_lookup ps' tid sd =
      (let d = (case sides of JObj sv \<Rightarrow> if t = tid then side_prices_in L sv sd else [] | _ \<Rightarrow> [])
       in if d = [] then price_lookup ps tid sd else Some (last d))"
    using Cons.prems
    by (cases sides) (auto simp: ps'_def price_lookup_def store_sides_lookup split: option.splits)
  show ?case
    unfolding step tp using Cons.prems
    by (subst Cons.IH) (auto simp: hd Let_def)
qed

lemma collect_batch_lookup:
  assumes "sd = ''BUY'' \<or> sd = ''SELL''"
  shows "price_lookup (prices_by_token (collect_batch L batches future i st)) tid sd =
     (if delivered_by L (future i) tid sd = [] then price_lookup (prices_by_token st) tid sd
      else Some (last (delivered_by L (future i) tid sd)))"
proof (cases "future i")
  case (Inl e)
  then show ?thesis by (simp add: collect_batch_def delivered_by_def)
next
  case (Inr r)
  obtain n data code where r: "r = (n, data, code)" by (cases r)
  show ?thesis
  proof (cases data)
    case (JObj kvs)
    show ?thesis
    proof (cases "kvs = []")
      case True
      then show ?thesis
        by (simp add: collect_batch_def delivered_by_def Inr r JObj Let_def token_prices_in_def)
    next
      case False
      then show ?thesis using assms
        by (simp add: collect_batch_def delivered_by_def Inr r JObj Let_def merge_data_lookup)
    qed
  qed (simp_all add: collect_batch_def delivered_by_def Inr r Let_def)
qed


lemma fold_collect_lookup:
  assumes "sd = ''BUY'' \<or> sd = ''SELL''"
  shows "price_lookup (prices_by_token (fold (collect_batch L batches future) order st)) tid sd =
     (if concat (map (\<lambda>i. delivered_by L (future i) tid sd) order) = []
      then price_lookup (prices_by_token st) tid sd
      else Some (last (concat (map (\<lambda>i. delivered_by L (future i) tid sd) order))))"
proof (induction order arbitrary: st)
  case Nil
  then show ?case by simp
next
  case (Cons i order)
  show ?case
    by (simp add: Cons.IH collect_batch_lookup [OF assms])
qed


lemma collect_all_side_price:
  assumes "sd = ''BUY'' \<or> sd = ''SELL''"
  shows "side_price (prices_by_token (collect_all L http batches order)) tid sd =
           last_or_empty (delivered L http batches order tid sd)"
proof -
  have fut: "(\<lambda>i. fetch_batch http i (batches ! i)) = future_of http batches"
    by (simp add: future_of_def fun_eq_iff)
  have "price_lookup (prices_by_token (collect_all L http batches order)) tid sd =
      (if delivered L http batches order tid sd = [] then None
       else Some (last (delivered L http batches order tid sd)))"
    unfolding collect_all_def fut delivered_def
    by (subst fold_collect_lookup [OF assms]) (simp add: price_lookup_def)
  then show ?thesis
    by (simp add: side_price_lookup last_or_empty_def)
qed


lemma build_results_Inr:
  "build_results ts ps errs tokens (results, stats) = Inr (results', stats') \<Longrightarrow>
     \<exists>rs. results' = results @ rs \<and> list_all2 (result_matches ts ps errs) tokens rs"
proof (induction tokens arbitrary: results stats)
  case Nil
  then show ?case by simp
next
  case (Cons token rest)
  from Cons.prems obtain m where m: "compute_mid (side_price ps (token_id token) ''SELL'')
       (side_price ps (token_id token) ''BUY'') = Inr m"
    by (auto simp: Let_def split: sum.splits)
  define b where "b = side_price ps (token_id token) ''SELL''"
  define a where "a = side_price ps (token_id token) ''BUY''"
  define sv where "sv = (if token_id token \<in> errs then ''api_error''
           else if b = [] \<and> a = [] then ''missing_price'' else ''ok'')"
  define r where "r = \<lparr>pr_snapshot_ts_utc = ts, pr_source = ''polymarket_clob'',
            pr_market_id = market_id token, pr_slug = slug token,
            pr_question = question token, pr_token_id = token_id token,
            pr_outcome = outcome token, bid = b, ask = a, mid = m,
            pr_active = active token, status = sv,
            pr_volume_num = volume_num token,
            pr_liquidity_num = liquidity_num token\<rparr>"
  have r: "result_matches ts ps errs token r"
    using m by (simp add: result_matches_def r_def sv_def a_def b_def)
  from Cons.prems obtain st where
    rec: "build_results ts ps errs rest (results @ [r], st) = Inr (results', stats')"
    by (auto simp: Let_def m r_def sv_def a_def b_def split: if_splits)
  from Cons.IH [OF rec] obtain rs where
    "results' = (results @ [r]) @ rs" "list_all2 (result_matches ts ps errs) rest rs"
    by blast
  then have "results' = results @ (r # rs) \<and> list_all2 (result_matches ts ps errs) (token # rest) (r # rs)"
    using r by simp
  then show ?case by blast
qed


lemma build_results_raises:
  "build_results ts ps errs tokens acc = Inr r \<Longrightarrow> t \<in> set tokens \<Longrightarrow>
   \<not> isl (compute_mid (side_price ps (token_id t) ''SELL'') (side_price ps (token_id t) ''BUY''))"
proof (induction tokens arbitrary: acc)
  case Nil
  then show ?case by simp
next
  case (Cons token rest)
  obtain results stats where acc: "acc = (results, stats)" by (cases acc)
  show ?case
    using Cons.prems Cons.IH unfolding acc
    by (auto simp: Let_def split: sum.splits if_splits)
qed


lemma fetch_batch_http_quotes:
  "fetch_batch http_quotes i xs =
     Inr (i, JObj [(''t1'', JObj [(''BUY'', JStr ''0.55''), (''SELL'', JStr ''0.53'')])], 200)"
  by (simp add: fetch_batch_def clob_request_with_retry_def MAX_RETRIES_def http_quotes_def
        numeral_eq_Suc)

lemmas decimal_eval = parse_decimal_def Decimal_def strip_def is_space_def
  parse_number_def parse_special_def parse_exponent_def is_digit_def digits_val_def digit_val_def
  lower_ascii_def ndigits.simps Let_def strip_zeros.simps prec_def Etop_def Etiny_def Emax_def
  Emin_def signed_def sign_str_def show_nat.simps digit_char_def round_half_even_def

lemma compute_mid_quotes: "compute_mid ''0.53'' ''0.55'' = Inr ''0.54''"
  by (simp add: compute_mid_def decimal_eval)

lemma delivered_http_quotes:
  "delivered sample_lib http_quotes batches [0] ''t1'' ''SELL'' = [''0.53'']"
  "delivered sample_lib http_quotes batches [0] ''t1'' ''BUY'' = [''0.55'']"
  by (simp_all add: delivered_def delivered_by_def future_of_def fetch_batch_http_quotes
        token_prices_in_def side_prices_in_def py_str_def)


lemma fetch_quotes_returns:
  "fetch_all_prices sample_lib [] http_quotes [0] [sample_token ''t1''] 5 500 None
     = Inr (results_of (fetch_all_prices sample_lib [] http_quotes [0] [sample_token ''t1'']
                           5 500 None),
            [\<lparr>rb_batch_num = 0, rb_status = 200,
               rb_data = JObj [(''t1'', JObj [(''BUY'', JStr ''0.55''), (''SELL'', JStr ''0.53'')])]\<rparr>],
            \<lparr>stat_tokens_priced_ok = 1, stat_tokens_missing_price = 0, stat_api_errors = 0\<rparr>)"
  by (simp add: fetch_all_prices_def chunk_list_def chunks.simps collect_all_def collect_batch_def
        fetch_batch_http_quotes merge_data_def store_sides_def side_price_def py_str_def Let_def
        compute_mid_quotes sample_token_def)


















text \<open>
  Claim C4. The request items are, for every input token in turn, the item for side BUY
  followed by the item for side SELL; and in every result that is returned the ask is the
  last BUY-side price the responses delivered for the token and the bid the last SELL-side
  price (empty when none was delivered).
\<close>

theorem request_items_and_sides:
  "build_request_items tokens =
     concat (map (\<lambda>t. [\<lparr>item_token_id = token_id t, side = ''BUY''\<rparr>,
                        \<lparr>item_token_id = token_id t, side = ''SELL''\<rparr>]) tokens)
   \<and> (fetch_all_prices L now http order tokens concurrency batch_size snapshot_ts
         = Inr (results, raw, stats) \<longrightarrow>
       length results = length tokens
       \<and> (\<forall>k < length tokens.
            pr_token_id (results ! k) = token_id (tokens ! k)
          \<and> ask (results ! k) =
              last_or_empty (delivered L http (batches_of tokens batch_size) order
                               (token_id (tokens ! k)) ''BUY'')
          \<and> bid (results ! k) =
              last_or_empty (delivered L http (batches_of tokens batch_size) order
                               (token_id (tokens ! k)) ''SELL'')))"
proof (intro conjI impI)
  show "build_request_items tokens =
     concat (map (\<lambda>t. [\<lparr>item_token_id = token_id t, side = ''BUY''\<rparr>,
                        \<lparr>item_token_id = token_id t, side = ''SELL''\<rparr>]) tokens)"
    by (induction tokens) simp_all
next
  assume fa: "fetch_all_prices L now http order tokens concurrency batch_size snapshot_ts
         = Inr (results, raw, stats)"
  define batches where "batches = batches_of tokens batch_size"
  define st where "st = collect_all L http batches order"
  define ts where "ts = (case snapshot_ts of None \<Rightarrow> now | Some t \<Rightarrow> t)"
  from fa have ch: "chunk_list (build_request_items tokens) batch_size = Inr batches"
    by (auto simp: fetch_all_prices_def batches_def batches_of_def split: sum.splits)
  from fa obtain stats0 where
    br: "build_results ts (prices_by_token st) (api_error_tokens st) tokens ([], stats0)
           = Inr (results, stats)"
    by (auto simp: fetch_all_prices_def ch Let_def st_def ts_def split: sum.splits if_splits)
  from build_results_Inr [OF br]
  have la: "list_all2 (result_matches ts (prices_by_token st) (api_error_tokens st)) tokens results"
    by simp
  then show "length results = length tokens"
    by (simp add: list_all2_lengthD)
  have each: "\<And>k. k < length tokens \<Longrightarrow>
      result_matches ts (prices_by_token st) (api_error_tokens st) (tokens ! k) (results ! k)"
    using la by (simp add: list_all2_conv_all_nth)
  show "\<forall>k < length tokens.
            pr_token_id (results ! k) = token_id (tokens ! k)
          \<and> ask (results ! k) =
              last_or_empty (delivered L http (batches_of tokens batch_size) order
                               (token_id (tokens ! k)) ''BUY'')
          \<and> bid (results ! k) =
              last_or_empty (delivered L http (batches_of tokens batch_size) order
                               (token_id (tokens ! k)) ''SELL'')"
    using each unfolding batches_def [symmetric]
    by (auto simp: result_matches_def st_def collect_all_side_price)
qed

theorem request_items_and_sides_witness:
  "ask (results_of (fetch_all_prices sample_lib [] http_quotes [0] [sample_token ''t1'']
                           5 500 None) ! 0) = ''0.55''
   \<and> bid (results_of (fetch_all_prices sample_lib [] http_quotes [0] [sample_token ''t1'']
                           5 500 None) ! 0) = ''0.53''"
  using request_items_and_sides
          [of "[sample_token ''t1'']" sample_lib "[]" http_quotes "[0]" 5 500 None
              "results_of (fetch_all_prices sample_lib [] http_quotes [0] [sample_token ''t1'']
                           5 500 None)"
              "[\<lparr>rb_batch_num = 0, rb_status = 200,
               rb_data = JObj [(''t1'', JObj [(''BUY'', JStr ''0.55''), (''SELL'', JStr ''0.53'')])]\<rparr>]"
              "\<lparr>stat_tokens_priced_ok = 1, stat_tokens_missing_price = 0, stat_api_errors = 0\<rparr>"]
        fetch_quotes_returns
  by (simp add: delivered_http_quotes last_or_empty_def sample_token_def)





section \<open>Properties of the mid price\<close>






























end
